theory Spec2Isabelle
  imports Complex_Main "HOL-Library.AList"
begin

section \<open>Shared data: elements and components\<close>

text \<open>
  A DOM element is identified by a number; an alloy component carries its element and
  the list of its child components (\<open>component.element\<close>, \<open>component.components()\<close>).
\<close>

datatype SugarElement = SugarElement nat

datatype AlloyComponent =
  AlloyComponent (element: SugarElement) (components: "AlloyComponent list")

section \<open>InlineHeader.ts: the inline toolbar positioner\<close>

subsection \<open>Data model\<close>

text \<open>The docking mode \<open>'top' | 'bottom'\<close> of \<open>calcMode\<close> and \<open>setupMode\<close>.\<close>

datatype DockingMode = ModeTop | ModeBottom

text \<open>Modelled from the spec: the enumerations \<open>ToolbarLocation\<close> and \<open>ToolbarMode\<close> are
  declared in \<open>Options\<close>, outside the sources. The configuration inputs are the "toolbar
  location preference (auto|top|bottom)" and the "toolbar layout mode
  (sliding|floating|plain)"; the header itself names \<open>auto\<close>, \<open>bottom\<close>, \<open>top\<close>, \<open>sliding\<close>
  and \<open>floating\<close>.\<close>

datatype ToolbarLocation = LocationAuto | LocationTop | LocationBottom

datatype ToolbarMode = sliding | floating | plain

text \<open>The two values of the vertical-direction attribute,
  \<open>VerticalDir.AttributeValue.TopToBottom\<close> and \<open>BottomToTop\<close>.\<close>

datatype VerticalDirValue = TopToBottom | BottomToTop

text \<open>The part of \<open>Boxes.box\<close> the header reads: \<open>x\<close>, \<open>y\<close> and \<open>bottom\<close>. Pixel
  measures are real numbers (exact arithmetic).\<close>

record Bounds =
  bounds_x :: real
  bounds_y :: real
  bounds_bottom :: real

text \<open>Everything the header measures in the page. Each field is the answer of one DOM
  query of the source, named in the comment.\<close>

record Geometry =
  boxesBox :: "SugarElement \<Rightarrow> Bounds"          \<comment> \<open>\<open>Boxes.box(elm)\<close>\<close>
  heightGet :: "SugarElement \<Rightarrow> real"           \<comment> \<open>\<open>Height.get(elm)\<close>\<close>
  getToolbar :: "AlloyComponent option"          \<comment> \<open>\<open>OuterContainer.getToolbar(outerContainer)\<close>\<close>
  docScrollHeight :: real                        \<comment> \<open>\<open>doc.dom.scrollHeight\<close>\<close>
  docHeightGet :: real                           \<comment> \<open>\<open>Height.get(doc)\<close>\<close>
  winBottom :: real                              \<comment> \<open>\<open>Boxes.win().bottom\<close>\<close>
  innerWidth :: real                             \<comment> \<open>\<open>window.innerWidth\<close>\<close>
  scrollLeft :: real                             \<comment> \<open>\<open>Scroll.get().left\<close>\<close>
  outerWidthGet :: real                          \<comment> \<open>\<open>Width.getOuter(outerContainer.element)\<close>\<close>
  bodyMarginLeft :: "int option"                 \<comment> \<open>\<open>Utils.parseToInt(Css.get(body, 'margin-left'))\<close>\<close>
  bodyWidth :: real                              \<comment> \<open>\<open>Width.get(SugarBody.body())\<close>\<close>
  targetAbsoluteLeft :: real                     \<comment> \<open>\<open>SugarLocation.absolute(targetElm).left\<close>\<close>

text \<open>The side effects of the header on its collaborators, in the order they happen.\<close>

datatype CssValue = Str string | Px real

datatype Effect =
    CssSet SugarElement string CssValue
  | CssSetAll SugarElement "(string \<times> CssValue) list"
  | CssRemove SugarElement string
  | AttributeSetVerticalDir SugarElement VerticalDirValue
  | AddClass SugarElement string
  | RemoveClass SugarElement string
  | DockingSetModes AlloyComponent "DockingMode list"
  | DockingReset AlloyComponent
  | DockingRefresh AlloyComponent
  | RefreshToolbar
  | BroadcastRepositionPopups

text \<open>What a measurement returns depends on the styles applied so far, so the page is a
  function from the effects performed up to now to the measurements.\<close>

type_synonym Layout = "Effect list \<Rightarrow> Geometry"

text \<open>The values fixed when \<open>InlineHeader(editor, targetElm, uiComponents, ...)\<close> is
  built. \<open>hasOuterContainer\<close> is the truthiness test of \<open>uiComponents.outerContainer\<close>
  in \<open>hide\<close>; the other operations use the outer container without a test, its type
  having no absent value.\<close>

record Config =
  useFixedToolbarContainer :: bool
  isSticky :: bool
  toolbarMode :: ToolbarMode
  toolbarLocation :: ToolbarLocation
  editorMaxWidthOpt :: "real option"
  targetElm :: SugarElement
  outerContainer :: AlloyComponent
  uiMothership :: AlloyComponent
  editorBody :: SugarElement
  hasOuterContainer :: bool

text \<open>The mutable state: the cell \<open>visible\<close>, \<open>editor.removed\<close>, the docking mode kept
  in the header backstage, the float container handle and the effects so far.\<close>

record State =
  visible :: bool
  removed :: bool
  dockingMode :: DockingMode
  floatContainer :: "AlloyComponent option"
  effects :: "Effect list"

subsection \<open>Operations\<close>

definition emit :: "Effect \<Rightarrow> State \<Rightarrow> State" where
  "emit e s = s\<lparr>effects := effects s @ [e]\<rparr>"

text \<open>\<open>Math.round\<close>: the nearest integer, a tie going up.\<close>

definition Math_round :: "real \<Rightarrow> int" where
  "Math_round v = \<lfloor>v + 1 / 2\<rfloor>"

definition isSplitToolbar :: "Config \<Rightarrow> bool" where
  "isSplitToolbar cfg = (toolbarMode cfg = sliding \<or> toolbarMode cfg = floating)"

definition isVisible :: "State \<Rightarrow> bool" where
  "isVisible s = (visible s \<and> \<not> removed s)"

text \<open>Modelled from the spec: \<open>headerBackstage.isPositionedAtTop\<close> is declared outside
  the sources; the docking mode is the value "read by position computation and
  vertical-direction attribute assignment", so the header is at the top when the stored
  mode is \<open>top\<close>.\<close>

definition isPositionedAtTop :: "State \<Rightarrow> bool" where
  "isPositionedAtTop s = (dockingMode s = ModeTop)"

definition calcToolbarOffset :: "Config \<Rightarrow> Geometry \<Rightarrow> AlloyComponent option \<Rightarrow> real" where
  "calcToolbarOffset cfg g toolbar =
     (if isSplitToolbar cfg then
        (case toolbar of
           None \<Rightarrow> 0
         | Some tbar \<Rightarrow>
             if length (components tbar) > 1
             then heightGet g (element (components tbar ! 1))
             else 0)
      else 0)"

definition calcMode :: "Config \<Rightarrow> Geometry \<Rightarrow> AlloyComponent \<Rightarrow> DockingMode" where
  "calcMode cfg g container =
     (case toolbarLocation cfg of
        LocationAuto \<Rightarrow>
          (let toolbar = getToolbar g;
               offset = calcToolbarOffset cfg g toolbar;
               toolbarHeight = heightGet g (element container) - offset;
               targetBounds = boxesBox g (targetElm cfg);
               roomAtTop = (bounds_y targetBounds > toolbarHeight)
           in if roomAtTop then ModeTop
              else
                (let docHeight = max (docScrollHeight g) (docHeightGet g);
                     roomAtBottom = (bounds_bottom targetBounds < docHeight - toolbarHeight)
                 in if roomAtBottom then ModeBottom
                    else
                      (let isRoomAtBottomViewport =
                             (winBottom g < bounds_bottom targetBounds - toolbarHeight)
                       in if isRoomAtBottomViewport then ModeBottom else ModeTop)))
      | LocationBottom \<Rightarrow> ModeBottom
      | LocationTop \<Rightarrow> ModeTop)"

definition setupMode :: "Config \<Rightarrow> DockingMode \<Rightarrow> State \<Rightarrow> State" where
  "setupMode cfg mode s =
     (case floatContainer s of
        None \<Rightarrow> s
      | Some container \<Rightarrow>
          (let s1 = emit (DockingSetModes container [mode]) s;
               s2 = s1\<lparr>dockingMode := mode\<rparr>;
               verticalDir = (if isPositionedAtTop s2 then TopToBottom else BottomToTop)
           in emit (AttributeSetVerticalDir (element container) verticalDir) s2))"

definition updateChromeWidth :: "Config \<Rightarrow> Layout \<Rightarrow> State \<Rightarrow> State" where
  "updateChromeWidth cfg lay s =
     (case floatContainer s of
        None \<Rightarrow> s
      | Some container \<Rightarrow>
          (let g = lay (effects s);
               maxWidth =
                 (case editorMaxWidthOpt cfg of
                    Some w \<Rightarrow> w
                  | None \<Rightarrow>
                      (let bodyMargin = (case bodyMarginLeft g of Some m \<Rightarrow> m | None \<Rightarrow> 0)
                       in bodyWidth g - targetAbsoluteLeft g + real_of_int bodyMargin))
           in emit (CssSet (element container) ''max-width'' (Px maxWidth)) s))"

text \<open>The three local values of \<open>updateChromePosition\<close>: \<open>top\<close>, \<open>baseProperties\<close> and
  \<open>widthProperties\<close>.\<close>

definition chromeTop :: "Config \<Rightarrow> Geometry \<Rightarrow> AlloyComponent \<Rightarrow> State \<Rightarrow> real" where
  "chromeTop cfg g container s =
     (let toolbar = getToolbar g;
          offset = calcToolbarOffset cfg g toolbar;
          targetBounds = boxesBox g (targetElm cfg)
      in if isPositionedAtTop s
         then max (bounds_y targetBounds - heightGet g (element container) + offset) 0
         else bounds_bottom targetBounds)"

definition baseProperties ::
  "Config \<Rightarrow> Geometry \<Rightarrow> AlloyComponent \<Rightarrow> State \<Rightarrow> (string \<times> CssValue) list" where
  "baseProperties cfg g container s =
     [(''position'', Str ''absolute''),
      (''left'', Px (real_of_int (Math_round (bounds_x (boxesBox g (targetElm cfg)))))),
      (''top'', Px (real_of_int (Math_round (chromeTop cfg g container s))))]"

definition widthProperties ::
  "Config \<Rightarrow> Geometry \<Rightarrow> real option \<Rightarrow> (string \<times> CssValue) list" where
  "widthProperties cfg g optToolbarWidth =
     (let targetBounds = boxesBox g (targetElm cfg) in
      case (case optToolbarWidth of
              None \<Rightarrow> None
            | Some w \<Rightarrow> if bounds_x targetBounds > innerWidth g then Some w else None) of
        None \<Rightarrow> []
      | Some toolbarWidth \<Rightarrow>
          (let minimumToolbarWidth = 150;
               availableWidth = innerWidth g - (bounds_x targetBounds - scrollLeft g);
               width = max minimumToolbarWidth (min toolbarWidth availableWidth)
           in [(''width'', Px width)]))"

definition updateChromePosition :: "Config \<Rightarrow> Layout \<Rightarrow> real option \<Rightarrow> State \<Rightarrow> State" where
  "updateChromePosition cfg lay optToolbarWidth s =
     (case floatContainer s of
        None \<Rightarrow> s
      | Some container \<Rightarrow>
          (let g = lay (effects s)
           in emit (CssSetAll (element (outerContainer cfg))
                      (baseProperties cfg g container s @ widthProperties cfg g optToolbarWidth))
                s))"

definition repositionPopups :: "State \<Rightarrow> State" where
  "repositionPopups s = emit BroadcastRepositionPopups s"

definition restoreAndGetCompleteOuterContainerWidth ::
  "Config \<Rightarrow> Layout \<Rightarrow> State \<Rightarrow> real option \<times> State" where
  "restoreAndGetCompleteOuterContainerWidth cfg lay s =
     (if \<not> useFixedToolbarContainer cfg then
        (let s1 = emit (CssSet (element (outerContainer cfg)) ''position'' (Str ''absolute'')) s;
             s2 = emit (CssSet (element (outerContainer cfg)) ''left'' (Str ''0px'')) s1;
             s3 = emit (CssRemove (element (outerContainer cfg)) ''width'') s2;
             w = outerWidthGet (lay (effects s3))
         in (Some w, s3))
      else (None, s))"

definition dockingAction :: "Config \<Rightarrow> bool \<Rightarrow> State \<Rightarrow> State" where
  "dockingAction cfg resetDocking s =
     (if isSticky cfg then
        (let action = (if resetDocking then DockingReset else DockingRefresh)
         in case floatContainer s of
              None \<Rightarrow> s
            | Some container \<Rightarrow> emit (action container) s)
      else s)"

definition updateChromeUi :: "Config \<Rightarrow> Layout \<Rightarrow> bool \<Rightarrow> State \<Rightarrow> State" where
  "updateChromeUi cfg lay resetDocking s =
     (if \<not> isVisible s then s
      else
        (let s1 = (if \<not> useFixedToolbarContainer cfg then updateChromeWidth cfg lay s else s);
             (optToolbarWidth, s2) = restoreAndGetCompleteOuterContainerWidth cfg lay s1;
             s3 = (if isSplitToolbar cfg then emit RefreshToolbar s2 else s2);
             s4 = (if \<not> useFixedToolbarContainer cfg
                   then updateChromePosition cfg lay optToolbarWidth s3 else s3);
             s5 = dockingAction cfg resetDocking s4
         in repositionPopups s5))"

definition updateMode :: "Config \<Rightarrow> Layout \<Rightarrow> bool \<Rightarrow> State \<Rightarrow> State" where
  "updateMode cfg lay updateUi s =
     (if useFixedToolbarContainer cfg \<or> \<not> isSticky cfg \<or> \<not> isVisible s then s
      else
        (case floatContainer s of
           None \<Rightarrow> s
         | Some container \<Rightarrow>
             (let currentMode = dockingMode s;
                  newMode = calcMode cfg (lay (effects s)) container
              in if newMode \<noteq> currentMode then
                   (let s1 = setupMode cfg newMode s
                    in if updateUi then updateChromeUi cfg lay True s1 else s1)
                 else s)))"

definition show_header :: "Config \<Rightarrow> Layout \<Rightarrow> State \<Rightarrow> State" where
  "show_header cfg lay s =
     (let s1 = s\<lparr>visible := True\<rparr>;
          s2 = emit (CssSet (element (outerContainer cfg)) ''display'' (Str ''flex'')) s1;
          s3 = emit (AddClass (editorBody cfg) ''mce-edit-focus'') s2;
          s4 = emit (CssRemove (element (uiMothership cfg)) ''display'') s3;
          s5 = updateMode cfg lay False s4
      in updateChromeUi cfg lay False s5)"

definition hide_header :: "Config \<Rightarrow> State \<Rightarrow> State" where
  "hide_header cfg s =
     (let s1 = s\<lparr>visible := False\<rparr>;
          s2 = (if hasOuterContainer cfg then
                  emit (RemoveClass (editorBody cfg) ''mce-edit-focus'')
                    (emit (CssSet (element (outerContainer cfg)) ''display'' (Str ''none'')) s1)
                else s1)
      in emit (CssSet (element (uiMothership cfg)) ''display'' (Str ''none'')) s2)"

subsection \<open>The header as a state machine\<close>

text \<open>The calls the owner of an \<open>InlineHeader\<close> can make (\<open>show\<close>, \<open>hide\<close>, \<open>update\<close>,
  \<open>updateMode\<close>, \<open>repositionPopups\<close>), and the editor being removed. Each call that
  measures carries the page it runs against.\<close>

datatype Event =
    EvShow Layout
  | EvHide
  | EvUpdate Layout bool
  | EvUpdateMode Layout bool
  | EvRepositionPopups
  | EvEditorRemoved

fun step :: "Config \<Rightarrow> State \<Rightarrow> Event \<Rightarrow> State" where
  "step cfg s (EvShow lay) = show_header cfg lay s"
| "step cfg s EvHide = hide_header cfg s"
| "step cfg s (EvUpdate lay resetDocking) = updateChromeUi cfg lay resetDocking s"
| "step cfg s (EvUpdateMode lay updateUi) = updateMode cfg lay updateUi s"
| "step cfg s EvRepositionPopups = repositionPopups s"
| "step cfg s EvEditorRemoved = s\<lparr>removed := True\<rparr>"

definition run :: "Config \<Rightarrow> State \<Rightarrow> Event list \<Rightarrow> State" where
  "run cfg s evs = foldl (step cfg) s evs"

text \<open>Whether the last of the \<open>show\<close>/\<open>hide\<close> calls in a history was a \<open>show\<close> (starting
  from \<open>b\<close>), and whether the editor was removed in it.\<close>

fun shown :: "bool \<Rightarrow> Event list \<Rightarrow> bool" where
  "shown b [] = b"
| "shown b (EvShow lay # evs) = shown True evs"
| "shown b (EvHide # evs) = shown False evs"
| "shown b (ev # evs) = shown b evs"

fun tornDown :: "bool \<Rightarrow> Event list \<Rightarrow> bool" where
  "tornDown b [] = b"
| "tornDown b (EvEditorRemoved # evs) = tornDown True evs"
| "tornDown b (ev # evs) = tornDown b evs"

subsection \<open>Classifying effects\<close>

text \<open>The effects performed by a step: what the step appended to the effects so far.\<close>

definition newEffects :: "State \<Rightarrow> State \<Rightarrow> Effect list" where
  "newEffects s s' = drop (length (effects s)) (effects s')"

fun isDockingEffect :: "Effect \<Rightarrow> bool" where
  "isDockingEffect (DockingSetModes c ms) = True"
| "isDockingEffect (DockingReset c) = True"
| "isDockingEffect (DockingRefresh c) = True"
| "isDockingEffect e = False"

fun isBroadcast :: "Effect \<Rightarrow> bool" where
  "isBroadcast BroadcastRepositionPopups = True"
| "isBroadcast e = False"

text \<open>The effects that place or size the chrome: every style, attribute, docking and
  toolbar-refresh effect except the changes of \<open>display\<close>, the focus class of the editor
  body and the notification sent to the popups.\<close>

fun isPositioningEffect :: "Effect \<Rightarrow> bool" where
  "isPositioningEffect (CssSet e p v) = (p \<noteq> ''display'')"
| "isPositioningEffect (CssSetAll e ps) = True"
| "isPositioningEffect (CssRemove e p) = (p \<noteq> ''display'')"
| "isPositioningEffect (AttributeSetVerticalDir e v) = True"
| "isPositioningEffect (AddClass e c) = False"
| "isPositioningEffect (RemoveClass e c) = False"
| "isPositioningEffect (DockingSetModes c ms) = True"
| "isPositioningEffect (DockingReset c) = True"
| "isPositioningEffect (DockingRefresh c) = True"
| "isPositioningEffect RefreshToolbar = True"
| "isPositioningEffect BroadcastRepositionPopups = False"

subsection \<open>Concrete pages and configurations\<close>

definition demoContainer :: AlloyComponent where
  "demoContainer = AlloyComponent (SugarElement 1) []"

definition demoToolbar :: AlloyComponent where
  "demoToolbar =
     AlloyComponent (SugarElement 2)
       [AlloyComponent (SugarElement 3) [], AlloyComponent (SugarElement 4) []]"

definition demoConfig :: "ToolbarLocation \<Rightarrow> ToolbarMode \<Rightarrow> Config" where
  "demoConfig loc tmode =
     \<lparr> useFixedToolbarContainer = False, isSticky = True, toolbarMode = tmode,
       toolbarLocation = loc, editorMaxWidthOpt = None, targetElm = SugarElement 0,
       outerContainer = AlloyComponent (SugarElement 5) [],
       uiMothership = AlloyComponent (SugarElement 6) [],
       editorBody = SugarElement 0, hasOuterContainer = True \<rparr>"

text \<open>A page whose target is at \<open>(tx, ty)\<close> with the given bottom edge; every element is
  40 pixels high except the second toolbar row (element 4), which is 30 pixels high.\<close>

definition demoPage :: "real \<Rightarrow> real \<Rightarrow> real \<Rightarrow> real \<Rightarrow> real \<Rightarrow> real \<Rightarrow> real \<Rightarrow> Geometry" where
  "demoPage tx ty tbottom docH winB innerW scrollL =
     \<lparr> boxesBox = (\<lambda>e. \<lparr> bounds_x = tx, bounds_y = ty, bounds_bottom = tbottom \<rparr>),
       heightGet = (\<lambda>e. if e = SugarElement 4 then 30 else 40),
       getToolbar = Some demoToolbar,
       docScrollHeight = docH, docHeightGet = docH,
       winBottom = winB, innerWidth = innerW, scrollLeft = scrollL,
       outerWidthGet = 400, bodyMarginLeft = Some 8, bodyWidth = 900,
       targetAbsoluteLeft = tx \<rparr>"

definition demoState :: "bool \<Rightarrow> bool \<Rightarrow> DockingMode \<Rightarrow> State" where
  "demoState vis rem m =
     \<lparr> visible = vis, removed = rem, dockingMode = m,
       floatContainer = Some demoContainer, effects = [] \<rparr>"

section \<open>DomMovement.js: directional navigation\<close>

subsection \<open>Data model\<close>

text \<open>The text direction of an element, the focus manager a component may be configured
  with (\<open>manager.get(component)\<close>; its \<open>set\<close> is an effect), and the \<open>info\<close> passed to a
  handler, of which the handlers read \<open>info.focusManager()\<close>.\<close>

datatype Direction = ltr | rtl

record FocusManager =
  manager_get :: "AlloyComponent \<Rightarrow> SugarElement option"

record Info =
  focusManager :: "FocusManager option"

text \<open>The two DOM queries of the module: \<open>Direction.getDirection(element)\<close> and
  \<open>Focus.search(element)\<close>.\<close>

record NavDom =
  getDirection :: "SugarElement \<Rightarrow> Direction"
  focusSearch :: "SugarElement \<Rightarrow> SugarElement option"

text \<open>A movement function \<open>move(element, focused, info)\<close> answers with the new focus, if
  any.\<close>

type_synonym Move = "SugarElement \<Rightarrow> SugarElement \<Rightarrow> Info \<Rightarrow> SugarElement option"

text \<open>What a handler does besides returning: the diagnostic \<open>console.log\<close> lines (by their
  first argument) and the two ways of committing a focus,
  \<open>component.getSystem().triggerFocus(newFocus, component.element())\<close> and
  \<open>manager.set(component, newFocus)\<close>.\<close>

datatype NavEffect =
    ConsoleLog string
  | TriggerFocus SugarElement SugarElement
  | ManagerSet AlloyComponent SugarElement

fun isCommit :: "NavEffect \<Rightarrow> bool" where
  "isCommit (ConsoleLog l) = False"
| "isCommit (TriggerFocus newFocus e) = True"
| "isCommit (ManagerSet c newFocus) = True"

subsection \<open>Operations\<close>

text \<open>Every operation returns its result together with the effects it performed.\<close>

definition getFocused :: "NavDom \<Rightarrow> AlloyComponent \<Rightarrow> Info \<Rightarrow> SugarElement option \<times> NavEffect list" where
  "getFocused nav component info =
     (case focusManager info of
        None \<Rightarrow>
          (focusSearch nav (element component),
           [ConsoleLog ''getFocused'', ConsoleLog ''no focus manager''])
      | Some manager \<Rightarrow>
          (manager_get manager component,
           [ConsoleLog ''getFocused'', ConsoleLog ''focus manager'', ConsoleLog ''r'']))"

definition commitFocus :: "AlloyComponent \<Rightarrow> Info \<Rightarrow> SugarElement \<Rightarrow> NavEffect" where
  "commitFocus component info newFocus =
     (case focusManager info of
        None \<Rightarrow> TriggerFocus newFocus (element component)
      | Some manager \<Rightarrow> ManagerSet component newFocus)"

definition use :: "NavDom \<Rightarrow> Move \<Rightarrow> AlloyComponent \<Rightarrow> 'ev \<Rightarrow> Info \<Rightarrow> bool option \<times> NavEffect list" where
  "use nav move component simulatedEvent info =
     (let (found, logs) = getFocused nav component info;
          outcome = (case found of
                       None \<Rightarrow> None
                     | Some focused \<Rightarrow> move (element component) focused info)
      in case outcome of
           None \<Rightarrow> (None, logs)
         | Some newFocus \<Rightarrow> (Some True, logs @ [commitFocus component info newFocus]))"

text \<open>Modelled from the spec: \<open>Direction.onDirection\<close> is not among the sources. "For a
  left-to-right context, west uses moveLeftFn and east uses moveRightFn; for
  right-to-left, the mapping inverts": of its two arguments it answers with the first for
  an element read left to right and with the second for one read right to left.\<close>

definition onDirection :: "NavDom \<Rightarrow> 'a \<Rightarrow> 'a \<Rightarrow> SugarElement \<Rightarrow> 'a" where
  "onDirection nav isLtr isRtl e = (if getDirection nav e = rtl then isRtl else isLtr)"

definition useH ::
  "NavDom \<Rightarrow> (SugarElement \<Rightarrow> Move) \<Rightarrow> AlloyComponent \<Rightarrow> 'ev \<Rightarrow> Info
     \<Rightarrow> bool option \<times> NavEffect list" where
  "useH nav movement component simulatedEvent info =
     (let move = movement (element component)
      in use nav move component simulatedEvent info)"

definition west ::
  "NavDom \<Rightarrow> Move \<Rightarrow> Move \<Rightarrow> AlloyComponent \<Rightarrow> 'ev \<Rightarrow> Info \<Rightarrow> bool option \<times> NavEffect list" where
  "west nav moveLeft moveRight =
     (let movement = onDirection nav moveLeft moveRight in useH nav movement)"

definition east ::
  "NavDom \<Rightarrow> Move \<Rightarrow> Move \<Rightarrow> AlloyComponent \<Rightarrow> 'ev \<Rightarrow> Info \<Rightarrow> bool option \<times> NavEffect list" where
  "east nav moveLeft moveRight =
     (let movement = onDirection nav moveRight moveLeft in useH nav movement)"

definition useV ::
  "NavDom \<Rightarrow> Move \<Rightarrow> AlloyComponent \<Rightarrow> 'ev \<Rightarrow> Info \<Rightarrow> bool option \<times> NavEffect list" where
  "useV nav move component simulatedEvent info = use nav move component simulatedEvent info"

definition north ::
  "NavDom \<Rightarrow> Move \<Rightarrow> AlloyComponent \<Rightarrow> 'ev \<Rightarrow> Info \<Rightarrow> bool option \<times> NavEffect list" where
  "north = useV"

definition south ::
  "NavDom \<Rightarrow> Move \<Rightarrow> AlloyComponent \<Rightarrow> 'ev \<Rightarrow> Info \<Rightarrow> bool option \<times> NavEffect list" where
  "south = useV"

text \<open>A handler's answer that consumes nothing and commits no focus.\<close>

definition notConsumed :: "bool option \<times> NavEffect list \<Rightarrow> bool" where
  "notConsumed r = (fst r = None \<and> filter isCommit (snd r) = [])"

subsection \<open>Concrete navigation hosts\<close>

definition demoDom :: "Direction \<Rightarrow> SugarElement option \<Rightarrow> NavDom" where
  "demoDom d focused = \<lparr> getDirection = (\<lambda>e. d), focusSearch = (\<lambda>e. focused) \<rparr>"

definition moveTo :: "nat \<Rightarrow> Move" where
  "moveTo n = (\<lambda>e focused info. Some (SugarElement n))"

definition moveNowhere :: Move where
  "moveNowhere = (\<lambda>e focused info. None)"

definition noManager :: Info where
  "noManager = \<lparr> focusManager = None \<rparr>"

definition managed :: "SugarElement option \<Rightarrow> Info" where
  "managed focused = \<lparr> focusManager = Some \<lparr> manager_get = (\<lambda>c. focused) \<rparr> \<rparr>"

section \<open>SelectorChanged: notification of selector matches\<close>

subsection \<open>Data model\<close>

text \<open>
  Selectors are strings; DOM nodes and callbacks are identified by numbers. The two
  records \<open>selectorChangedData\<close> and \<open>currentSelectors\<close> map a selector to an array of
  callbacks. Arrays are shared: the module stores the same array under both records
  (\<open>currentSelectors[selector] = callbacks\<close>) and later pushes to it, so arrays live in a
  store (\<open>arrays\<close>, with \<open>nextArray\<close> the next unused address) and the records hold
  addresses. A record is the list of its own keys in insertion order, each with its value:
  assigning to a present key keeps its place, assigning to an absent key appends, as
  \<open>AList.update\<close> does.
  A callback is not run: each invocation is recorded with its arguments, so a callback
  that registers or unbinds while it is being invoked is outside this model.
\<close>

type_synonym Selector = string
type_synonym Callback = nat
type_synonym Node = nat
type_synonym CallbackMap = "(Selector \<times> nat) list"

text \<open>One invocation \<open>callback(active, { node, selector, parents })\<close>.\<close>

datatype Invocation = Invocation Callback bool Node Selector "Node list"




record SelectorState =
  isSetup :: bool                        \<comment> \<open>\<open>setup()\<close> has run: the records exist, the handler is bound\<close>
  arrays :: "nat \<Rightarrow> Callback list"
  nextArray :: nat
  selectorChangedData :: CallbackMap
  currentSelectors :: CallbackMap
  invocations :: "Invocation list"


subsection \<open>Reading a record\<close>



text \<open>\<open>Obj.has(record, key)\<close>: the key is an own key of the record.\<close>

definition hasKey :: "CallbackMap \<Rightarrow> Selector \<Rightarrow> bool" where
  "hasKey m selector = (map_of m selector \<noteq> None)"


text \<open>
  \<open>Obj.each\<close> walks \<open>Object.keys(record)\<close>: first the keys that are array indices (the
  canonical decimal strings of the numbers below \<open>2^32 - 1\<close>) in ascending order, then the
  other keys in insertion order.
\<close>

definition isDigit :: "char \<Rightarrow> bool" where
  "isDigit c = (48 \<le> (of_char c :: int) \<and> (of_char c :: int) \<le> 57)"

definition indexValue :: "string \<Rightarrow> int" where
  "indexValue k = fold (\<lambda>c n. 10 * n + ((of_char c :: int) - 48)) k 0"

definition isArrayIndex :: "string \<Rightarrow> bool" where
  "isArrayIndex k =
     (k \<noteq> [] \<and> list_all isDigit k \<and> (k = ''0'' \<or> hd k \<noteq> CHR ''0'')
      \<and> indexValue k < 4294967295)"

definition objEntries :: "CallbackMap \<Rightarrow> CallbackMap" where
  "objEntries m =
     sort_key (\<lambda>p. indexValue (fst p)) (filter (\<lambda>p. isArrayIndex (fst p)) m)
     @ filter (\<lambda>p. \<not> isArrayIndex (fst p)) m"

subsection \<open>Operations\<close>



definition invokeAll ::
  "Callback list \<Rightarrow> bool \<Rightarrow> Node \<Rightarrow> Selector \<Rightarrow> Node list \<Rightarrow> SelectorState \<Rightarrow> SelectorState" where
  "invokeAll callbacks active node selector parents s =
     s\<lparr>invocations := invocations s
          @ map (\<lambda>callback. Invocation callback active node selector parents) callbacks\<rparr>"







subsection \<open>Histories\<close>













section \<open>Properties of the inline toolbar positioner\<close>

lemmas demo_defs = demoConfig_def demoPage_def demoState_def demoContainer_def demoToolbar_def

subsection \<open>Mode resolution\<close>

lemma calcMode_auto_unfold:
  "toolbarLocation cfg = LocationAuto \<Longrightarrow>
   calcMode cfg g c =
     (let H = heightGet g (element c) - calcToolbarOffset cfg g (getToolbar g);
          tb = boxesBox g (targetElm cfg)
      in if bounds_y tb > H then ModeTop
         else if bounds_bottom tb < max (docScrollHeight g) (docHeightGet g) - H then ModeBottom
         else if winBottom g < bounds_bottom tb - H then ModeBottom else ModeTop)"
  by (simp add: calcMode_def Let_def)

text \<open>
  C1 (as amended). In auto mode with no room at the top (\<open>target.y\<close> does not exceed the
  effective toolbar height) and no room at the bottom of the document (\<open>target.bottom\<close> is
  not less than the document height minus the effective toolbar height), \<open>calcMode\<close>
  compares the viewport bottom with the target's bottom \<^emph>\<open>minus\<close> the effective toolbar
  height: it returns \<open>bottom\<close> when the viewport bottom is strictly less than that, and
  \<open>top\<close> otherwise.
\<close>

theorem calcMode_viewport_tiebreak:
  assumes "toolbarLocation cfg = LocationAuto"
    and "\<not> bounds_y (boxesBox g (targetElm cfg))
            > heightGet g (element c) - calcToolbarOffset cfg g (getToolbar g)"
    and "\<not> bounds_bottom (boxesBox g (targetElm cfg))
            < max (docScrollHeight g) (docHeightGet g)
              - (heightGet g (element c) - calcToolbarOffset cfg g (getToolbar g))"
  shows "calcMode cfg g c =
           (if winBottom g < bounds_bottom (boxesBox g (targetElm cfg))
                 - (heightGet g (element c) - calcToolbarOffset cfg g (getToolbar g))
            then ModeBottom else ModeTop)"
  using assms by (simp add: calcMode_auto_unfold Let_def)

text \<open>The theorem at two pages with a target from 10 to 100, a toolbar of height 40 and
  a document of height 120: the viewport bottom at 50 gives \<open>bottom\<close>, at 100 \<open>top\<close>.\<close>

theorem calcMode_viewport_tiebreak_witness:
  "calcMode (demoConfig LocationAuto plain) (demoPage 20 10 100 120 50 1000 0) demoContainer
     = ModeBottom
   \<and> calcMode (demoConfig LocationAuto plain) (demoPage 20 10 100 120 100 1000 0) demoContainer
     = ModeTop"
  using calcMode_viewport_tiebreak [of "demoConfig LocationAuto plain"
      "demoPage 20 10 100 120 50 1000 0" demoContainer]
    calcMode_viewport_tiebreak [of "demoConfig LocationAuto plain"
      "demoPage 20 10 100 120 100 1000 0" demoContainer]
  by (simp add: demo_defs calcToolbarOffset_def isSplitToolbar_def)

text \<open>
  C1 as stated fails. In both pages below the effective toolbar height is 40, there is no
  room at the top (10 does not exceed 40) and none at the bottom of the document (100 is
  not less than 120 - 40), and the viewport bottom is less than the target's bottom plus
  the toolbar height (100 < 140 and 50 < 140). Yet the first page resolves to \<open>top\<close> and
  the second to \<open>bottom\<close>: the decision is not the comparison of the viewport bottom with
  \<open>target.bottom + toolbarHeight\<close>, whichever side of it is taken to mean room below.
\<close>

theorem calcMode_viewport_plus_counterexample:
  "toolbarLocation (demoConfig LocationAuto plain) = LocationAuto
   \<and> heightGet (demoPage 20 10 100 120 100 1000 0) (element demoContainer)
       - calcToolbarOffset (demoConfig LocationAuto plain) (demoPage 20 10 100 120 100 1000 0)
           (getToolbar (demoPage 20 10 100 120 100 1000 0)) = 40
   \<and> \<not> bounds_y (boxesBox (demoPage 20 10 100 120 100 1000 0)
          (targetElm (demoConfig LocationAuto plain))) > 40
   \<and> \<not> bounds_bottom (boxesBox (demoPage 20 10 100 120 100 1000 0)
          (targetElm (demoConfig LocationAuto plain)))
        < max (docScrollHeight (demoPage 20 10 100 120 100 1000 0))
            (docHeightGet (demoPage 20 10 100 120 100 1000 0)) - 40
   \<and> winBottom (demoPage 20 10 100 120 100 1000 0)
       < bounds_bottom (boxesBox (demoPage 20 10 100 120 100 1000 0)
           (targetElm (demoConfig LocationAuto plain))) + 40
   \<and> calcMode (demoConfig LocationAuto plain) (demoPage 20 10 100 120 100 1000 0)
       demoContainer = ModeTop
   \<and> heightGet (demoPage 20 10 100 120 50 1000 0) (element demoContainer)
       - calcToolbarOffset (demoConfig LocationAuto plain) (demoPage 20 10 100 120 50 1000 0)
           (getToolbar (demoPage 20 10 100 120 50 1000 0)) = 40
   \<and> \<not> bounds_y (boxesBox (demoPage 20 10 100 120 50 1000 0)
          (targetElm (demoConfig LocationAuto plain))) > 40
   \<and> \<not> bounds_bottom (boxesBox (demoPage 20 10 100 120 50 1000 0)
          (targetElm (demoConfig LocationAuto plain)))
        < max (docScrollHeight (demoPage 20 10 100 120 50 1000 0))
            (docHeightGet (demoPage 20 10 100 120 50 1000 0)) - 40
   \<and> winBottom (demoPage 20 10 100 120 50 1000 0)
       < bounds_bottom (boxesBox (demoPage 20 10 100 120 50 1000 0)
           (targetElm (demoConfig LocationAuto plain))) + 40
   \<and> calcMode (demoConfig LocationAuto plain) (demoPage 20 10 100 120 50 1000 0)
       demoContainer = ModeBottom"
  by (simp add: demo_defs calcMode_def calcToolbarOffset_def isSplitToolbar_def)

text \<open>
  C2. In auto mode \<open>calcMode\<close> returns \<open>top\<close> whenever \<open>target.y\<close> strictly exceeds the
  effective toolbar height; otherwise it returns \<open>bottom\<close> whenever \<open>target.bottom\<close> is
  less than the document height minus the effective toolbar height. The offset taken off
  the toolbar height is the height of the toolbar's second child when the toolbar mode is
  sliding or floating and the toolbar has more than one child, and 0 in every other case.
\<close>

theorem calcMode_auto_room:
  assumes "toolbarLocation cfg = LocationAuto"
  shows "(bounds_y (boxesBox g (targetElm cfg))
            > heightGet g (element c) - calcToolbarOffset cfg g (getToolbar g)
          \<longrightarrow> calcMode cfg g c = ModeTop)
       \<and> (\<not> bounds_y (boxesBox g (targetElm cfg))
              > heightGet g (element c) - calcToolbarOffset cfg g (getToolbar g)
          \<and> bounds_bottom (boxesBox g (targetElm cfg))
              < max (docScrollHeight g) (docHeightGet g)
                - (heightGet g (element c) - calcToolbarOffset cfg g (getToolbar g))
          \<longrightarrow> calcMode cfg g c = ModeBottom)
       \<and> ((toolbarMode cfg = sliding \<or> toolbarMode cfg = floating)
            \<and> toolbar = Some tbar \<and> length (components tbar) > 1
          \<longrightarrow> calcToolbarOffset cfg g toolbar = heightGet g (element (components tbar ! 1)))
       \<and> (\<not> ((toolbarMode cfg = sliding \<or> toolbarMode cfg = floating)
               \<and> (\<exists>t. toolbar = Some t \<and> length (components t) > 1))
          \<longrightarrow> calcToolbarOffset cfg g toolbar = 0)"
  using assms
  by (auto simp add: calcMode_auto_unfold Let_def calcToolbarOffset_def isSplitToolbar_def
      split: option.splits)

theorem calcMode_auto_room_witness:
  "calcMode (demoConfig LocationAuto sliding) (demoPage 20 500 600 2000 700 1000 0)
     demoContainer = ModeTop
   \<and> calcMode (demoConfig LocationAuto sliding) (demoPage 20 10 100 2000 700 1000 0)
     demoContainer = ModeBottom
   \<and> calcToolbarOffset (demoConfig LocationAuto sliding) (demoPage 20 10 100 2000 700 1000 0)
       (Some demoToolbar) = 30
   \<and> calcToolbarOffset (demoConfig LocationAuto plain) (demoPage 20 10 100 2000 700 1000 0)
       (Some demoToolbar) = 0
   \<and> calcToolbarOffset (demoConfig LocationAuto sliding) (demoPage 20 10 100 2000 700 1000 0)
       (Some demoContainer) = 0
   \<and> calcToolbarOffset (demoConfig LocationAuto floating) (demoPage 20 10 100 2000 700 1000 0)
       None = 0"
  using calcMode_auto_room [of "demoConfig LocationAuto sliding"
      "demoPage 20 500 600 2000 700 1000 0" demoContainer "Some demoToolbar" demoToolbar]
    calcMode_auto_room [of "demoConfig LocationAuto sliding"
      "demoPage 20 10 100 2000 700 1000 0" demoContainer "Some demoToolbar" demoToolbar]
    calcMode_auto_room [of "demoConfig LocationAuto plain"
      "demoPage 20 10 100 2000 700 1000 0" demoContainer "Some demoToolbar" demoToolbar]
    calcMode_auto_room [of "demoConfig LocationAuto sliding"
      "demoPage 20 10 100 2000 700 1000 0" demoContainer "Some demoContainer" demoContainer]
    calcMode_auto_room [of "demoConfig LocationAuto floating"
      "demoPage 20 10 100 2000 700 1000 0" demoContainer "None" demoContainer]
  by (simp add: demo_defs)

subsection \<open>The update pass\<close>

text \<open>
  C4. A call of \<open>update\<close> (\<open>updateChromeUi\<close>) while the header is hidden (the visibility
  cell is false or the editor is removed) returns the state it was given: no style is
  changed, no width is measured, the split toolbar is not refreshed, docking is neither
  reset nor refreshed, and nothing is broadcast to the popups.
\<close>

theorem update_hidden_noop:
  assumes "\<not> visible s \<or> removed s"
  shows "updateChromeUi cfg lay resetDocking s = s
       \<and> newEffects s (updateChromeUi cfg lay resetDocking s) = []"
  using assms by (auto simp add: updateChromeUi_def isVisible_def newEffects_def)

text \<open>The theorem at a state whose cell is false and at a state whose editor is removed;
  the same call on a visible state does have effects.\<close>

theorem update_hidden_noop_witness:
  "updateChromeUi (demoConfig LocationAuto sliding) (\<lambda>es. demoPage 20 10 100 2000 700 1000 0)
      True (demoState False False ModeTop) = demoState False False ModeTop
   \<and> updateChromeUi (demoConfig LocationAuto sliding) (\<lambda>es. demoPage 20 10 100 2000 700 1000 0)
      False (demoState True True ModeTop) = demoState True True ModeTop
   \<and> effects (updateChromeUi (demoConfig LocationAuto sliding)
      (\<lambda>es. demoPage 20 10 100 2000 700 1000 0) False (demoState True False ModeTop)) \<noteq> []"
  using update_hidden_noop [of "demoState False False ModeTop" "demoConfig LocationAuto sliding"
      "\<lambda>es. demoPage 20 10 100 2000 700 1000 0" True]
    update_hidden_noop [of "demoState True True ModeTop" "demoConfig LocationAuto sliding"
      "\<lambda>es. demoPage 20 10 100 2000 700 1000 0" False]
  by (simp add: demo_defs updateChromeUi_def isVisible_def repositionPopups_def emit_def
      Let_def split_def)

subsection \<open>Effects of the operations\<close>

lemma emit_fields [simp]:
  "visible (emit e s) = visible s"
  "removed (emit e s) = removed s"
  "dockingMode (emit e s) = dockingMode s"
  "floatContainer (emit e s) = floatContainer s"
  "effects (emit e s) = effects s @ [e]"
  "isVisible (emit e s) = isVisible s"
  by (simp_all add: emit_def isVisible_def)

lemma newEffects_append: "effects s' = effects s @ es \<Longrightarrow> newEffects s s' = es"
  by (simp add: newEffects_def)

lemma newEffects_same [simp]: "newEffects s s = []"
  by (simp add: newEffects_def)

lemma setupMode_fields:
  "visible (setupMode cfg m s) = visible s"
  "removed (setupMode cfg m s) = removed s"
  "floatContainer (setupMode cfg m s) = floatContainer s"
  "isVisible (setupMode cfg m s) = isVisible s"
  by (simp_all add: setupMode_def Let_def isVisible_def split: option.splits)

lemma setupMode_Some:
  "floatContainer s = Some container \<Longrightarrow>
   effects (setupMode cfg m s) = effects s @
     [DockingSetModes container [m],
      AttributeSetVerticalDir (element container) (if m = ModeTop then TopToBottom else BottomToTop)]
   \<and> dockingMode (setupMode cfg m s) = m"
  by (simp add: setupMode_def Let_def isPositionedAtTop_def)

lemma updateChromeWidth_fields:
  "visible (updateChromeWidth cfg lay s) = visible s"
  "removed (updateChromeWidth cfg lay s) = removed s"
  "dockingMode (updateChromeWidth cfg lay s) = dockingMode s"
  "floatContainer (updateChromeWidth cfg lay s) = floatContainer s"
  by (simp_all add: updateChromeWidth_def Let_def split: option.splits)

lemma updateChromeWidth_effects:
  "\<exists>es. effects (updateChromeWidth cfg lay s) = effects s @ es
        \<and> filter isDockingEffect es = [] \<and> filter isBroadcast es = []"
  by (simp add: updateChromeWidth_def Let_def split: option.splits)

lemma restore_fields:
  "visible (snd (restoreAndGetCompleteOuterContainerWidth cfg lay s)) = visible s"
  "removed (snd (restoreAndGetCompleteOuterContainerWidth cfg lay s)) = removed s"
  "dockingMode (snd (restoreAndGetCompleteOuterContainerWidth cfg lay s)) = dockingMode s"
  "floatContainer (snd (restoreAndGetCompleteOuterContainerWidth cfg lay s)) = floatContainer s"
  by (simp_all add: restoreAndGetCompleteOuterContainerWidth_def Let_def)

lemma restore_effects:
  "\<exists>es. effects (snd (restoreAndGetCompleteOuterContainerWidth cfg lay s)) = effects s @ es
        \<and> filter isDockingEffect es = [] \<and> filter isBroadcast es = []"
  by (simp add: restoreAndGetCompleteOuterContainerWidth_def Let_def)

lemma updateChromePosition_fields:
  "visible (updateChromePosition cfg lay w s) = visible s"
  "removed (updateChromePosition cfg lay w s) = removed s"
  "dockingMode (updateChromePosition cfg lay w s) = dockingMode s"
  "floatContainer (updateChromePosition cfg lay w s) = floatContainer s"
  by (simp_all add: updateChromePosition_def Let_def split: option.splits)

lemma updateChromePosition_effects:
  "\<exists>es. effects (updateChromePosition cfg lay w s) = effects s @ es
        \<and> filter isDockingEffect es = [] \<and> filter isBroadcast es = []"
  by (simp add: updateChromePosition_def Let_def split: option.splits)

lemma dockingAction_fields:
  "visible (dockingAction cfg r s) = visible s"
  "removed (dockingAction cfg r s) = removed s"
  "dockingMode (dockingAction cfg r s) = dockingMode s"
  "floatContainer (dockingAction cfg r s) = floatContainer s"
  by (simp_all add: dockingAction_def Let_def split: option.splits)

lemma dockingAction_effects:
  "effects (dockingAction cfg r s) = effects s @
     (if isSticky cfg then
        (case floatContainer s of None \<Rightarrow> []
         | Some c \<Rightarrow> [(if r then DockingReset else DockingRefresh) c])
      else [])"
  by (simp add: dockingAction_def Let_def split: option.splits)

lemma updateChromeUi_fields:
  "visible (updateChromeUi cfg lay r s) = visible s"
  "removed (updateChromeUi cfg lay r s) = removed s"
  "dockingMode (updateChromeUi cfg lay r s) = dockingMode s"
  "floatContainer (updateChromeUi cfg lay r s) = floatContainer s"
  by (simp_all add: updateChromeUi_def Let_def split_def repositionPopups_def
      dockingAction_fields updateChromePosition_fields restore_fields updateChromeWidth_fields)

lemma updateChromeUi_visible_effects:
  assumes "isVisible s"
  shows "\<exists>es. effects (updateChromeUi cfg lay r s) = effects s @ es
     \<and> filter isBroadcast es = [BroadcastRepositionPopups]
     \<and> filter isDockingEffect es =
         (if isSticky cfg then
            (case floatContainer s of None \<Rightarrow> []
             | Some c \<Rightarrow> [(if r then DockingReset else DockingRefresh) c])
          else [])"
proof -
  define s1 where "s1 = (if \<not> useFixedToolbarContainer cfg then updateChromeWidth cfg lay s else s)"
  define s2 where "s2 = snd (restoreAndGetCompleteOuterContainerWidth cfg lay s1)"
  define w where "w = fst (restoreAndGetCompleteOuterContainerWidth cfg lay s1)"
  define s3 where "s3 = (if isSplitToolbar cfg then emit RefreshToolbar s2 else s2)"
  define s4 where "s4 = (if \<not> useFixedToolbarContainer cfg
                   then updateChromePosition cfg lay w s3 else s3)"
  define s5 where "s5 = dockingAction cfg r s4"
  have u: "updateChromeUi cfg lay r s = repositionPopups s5"
    using assms
    by (simp add: updateChromeUi_def Let_def split_def s1_def s2_def w_def s3_def s4_def s5_def)
  have "\<exists>e1. effects s1 = effects s @ e1 \<and> filter isDockingEffect e1 = []
      \<and> filter isBroadcast e1 = []"
    using updateChromeWidth_effects [of cfg lay s]
    by (cases "useFixedToolbarContainer cfg") (simp_all add: s1_def)
  then obtain e1 where e1: "effects s1 = effects s @ e1" "filter isDockingEffect e1 = []"
      "filter isBroadcast e1 = []"
    by blast
  obtain e2 where e2: "effects s2 = effects s1 @ e2" "filter isDockingEffect e2 = []"
      "filter isBroadcast e2 = []"
    using restore_effects [of cfg lay s1] by (auto simp add: s2_def)
  have "\<exists>e3. effects s3 = effects s2 @ e3 \<and> filter isDockingEffect e3 = []
      \<and> filter isBroadcast e3 = []"
    by (cases "isSplitToolbar cfg") (simp_all add: s3_def)
  then obtain e3 where e3: "effects s3 = effects s2 @ e3" "filter isDockingEffect e3 = []"
      "filter isBroadcast e3 = []"
    by blast
  have "\<exists>e4. effects s4 = effects s3 @ e4 \<and> filter isDockingEffect e4 = []
      \<and> filter isBroadcast e4 = []"
    using updateChromePosition_effects [of cfg lay w s3]
    by (cases "useFixedToolbarContainer cfg") (simp_all add: s4_def)
  then obtain e4 where e4: "effects s4 = effects s3 @ e4" "filter isDockingEffect e4 = []"
      "filter isBroadcast e4 = []"
    by blast
  have fc: "floatContainer s4 = floatContainer s"
    by (simp add: s4_def s3_def s2_def s1_def updateChromePosition_fields restore_fields
        updateChromeWidth_fields)
  have e5: "effects s5 = effects s4 @
     (if isSticky cfg then
        (case floatContainer s of None \<Rightarrow> []
         | Some c \<Rightarrow> [(if r then DockingReset else DockingRefresh) c])
      else [])"
    by (simp add: s5_def dockingAction_effects fc)
  let ?d = "(if isSticky cfg then
        (case floatContainer s of None \<Rightarrow> []
         | Some c \<Rightarrow> [(if r then DockingReset else DockingRefresh) c])
      else [])"
  let ?es = "e1 @ e2 @ e3 @ e4 @ ?d @ [BroadcastRepositionPopups]"
  have a: "effects (updateChromeUi cfg lay r s) = effects s @ ?es"
    by (simp add: u repositionPopups_def e1 e2 e3 e4 e5)
  have b: "filter isBroadcast ?es = [BroadcastRepositionPopups]"
    by (cases "isSticky cfg"; cases "floatContainer s") (simp_all add: e1(3) e2(3) e3(3) e4(3))
  have c: "filter isDockingEffect ?es = ?d"
    by (cases "isSticky cfg"; cases "floatContainer s") (simp_all add: e1(2) e2(2) e3(2) e4(2))
  from a b c show ?thesis by blast
qed

subsection \<open>Mode updates and chrome position\<close>

text \<open>
  C3. \<open>updateMode\<close> returns the state unchanged when the fixed container is configured,
  sticky docking is off or the header is hidden, and also when there is no float
  container to compute a mode for. Otherwise, with the float container in place: when
  the freshly computed mode equals the stored one nothing happens (no update pass); when
  it differs, the new mode is applied (the docking modes are set to it, it is stored, the
  vertical-direction attribute is set from it) and then, exactly when \<open>updateUi\<close> holds,
  one update pass \<open>updateChromeUi(true)\<close> runs: the step broadcasts to the popups once and
  resets docking once, and does neither when \<open>updateUi\<close> is false.
\<close>

theorem updateMode_behaviour:
  "(useFixedToolbarContainer cfg \<or> \<not> isSticky cfg \<or> \<not> isVisible s
      \<longrightarrow> updateMode cfg lay updateUi s = s)
   \<and> (floatContainer s = None \<longrightarrow> updateMode cfg lay updateUi s = s)
   \<and> (\<not> useFixedToolbarContainer cfg \<and> isSticky cfg \<and> isVisible s
        \<and> floatContainer s = Some container
      \<longrightarrow> (calcMode cfg (lay (effects s)) container = dockingMode s
             \<longrightarrow> updateMode cfg lay updateUi s = s)
        \<and> (calcMode cfg (lay (effects s)) container \<noteq> dockingMode s
             \<longrightarrow> (let newMode = calcMode cfg (lay (effects s)) container;
                      s1 = setupMode cfg newMode s;
                      s' = updateMode cfg lay updateUi s
                  in effects s1 = effects s @
                       [DockingSetModes container [newMode],
                        AttributeSetVerticalDir (element container)
                          (if newMode = ModeTop then TopToBottom else BottomToTop)]
                   \<and> dockingMode s1 = newMode
                   \<and> s' = (if updateUi then updateChromeUi cfg lay True s1 else s1)
                   \<and> dockingMode s' = newMode
                   \<and> filter isBroadcast (newEffects s s')
                       = (if updateUi then [BroadcastRepositionPopups] else [])
                   \<and> filter isDockingEffect (newEffects s s')
                       = DockingSetModes container [newMode]
                         # (if updateUi then [DockingReset container] else []))))"
proof -
  have hidden: "useFixedToolbarContainer cfg \<or> \<not> isSticky cfg \<or> \<not> isVisible s
      \<Longrightarrow> updateMode cfg lay updateUi s = s"
    by (auto simp add: updateMode_def)
  have absent: "floatContainer s = None \<Longrightarrow> updateMode cfg lay updateUi s = s"
    by (simp add: updateMode_def)
  {
    assume a: "\<not> useFixedToolbarContainer cfg" "isSticky cfg" "isVisible s"
      "floatContainer s = Some container"
    define newMode where "newMode = calcMode cfg (lay (effects s)) container"
    define s1 where "s1 = setupMode cfg newMode s"
    define s' where "s' = updateMode cfg lay updateUi s"
    have same: "newMode = dockingMode s \<Longrightarrow> s' = s"
      using a by (simp add: s'_def updateMode_def newMode_def)
    have s1: "effects s1 = effects s @
                       [DockingSetModes container [newMode],
                        AttributeSetVerticalDir (element container)
                          (if newMode = ModeTop then TopToBottom else BottomToTop)]"
      "dockingMode s1 = newMode"
      using setupMode_Some [OF a(4), of cfg newMode] by (simp_all add: s1_def)
    have v1: "isVisible s1" "floatContainer s1 = Some container"
      using a by (simp_all add: s1_def setupMode_fields)
    {
      assume d: "newMode \<noteq> dockingMode s"
      have upd: "s' = (if updateUi then updateChromeUi cfg lay True s1 else s1)"
        using a d by (simp add: s'_def updateMode_def newMode_def [symmetric] s1_def Let_def)
      have dm: "dockingMode s' = newMode"
        by (simp add: upd s1 updateChromeUi_fields)
      obtain es where es: "effects (updateChromeUi cfg lay True s1) = effects s1 @ es"
        "filter isBroadcast es = [BroadcastRepositionPopups]"
        "filter isDockingEffect es = [DockingReset container]"
        using updateChromeUi_visible_effects [OF v1(1), of cfg lay True] a(2) v1(2) by auto
      have ne: "newEffects s s' =
          [DockingSetModes container [newMode],
           AttributeSetVerticalDir (element container)
             (if newMode = ModeTop then TopToBottom else BottomToTop)]
          @ (if updateUi then es else [])"
        by (cases updateUi) (simp_all add: upd es(1) s1(1) newEffects_def)
      have fb: "filter isBroadcast (newEffects s s')
                       = (if updateUi then [BroadcastRepositionPopups] else [])"
        by (cases updateUi) (simp_all add: ne es(2))
      have fd: "filter isDockingEffect (newEffects s s')
                       = DockingSetModes container [newMode]
                         # (if updateUi then [DockingReset container] else [])"
        by (cases updateUi) (simp_all add: ne es(3))
      note upd dm fb fd
    }
    note changed = this
    have "(newMode = dockingMode s \<longrightarrow> s' = s)
        \<and> (newMode \<noteq> dockingMode s
             \<longrightarrow> effects s1 = effects s @
                       [DockingSetModes container [newMode],
                        AttributeSetVerticalDir (element container)
                          (if newMode = ModeTop then TopToBottom else BottomToTop)]
                   \<and> dockingMode s1 = newMode
                   \<and> s' = (if updateUi then updateChromeUi cfg lay True s1 else s1)
                   \<and> dockingMode s' = newMode
                   \<and> filter isBroadcast (newEffects s s')
                       = (if updateUi then [BroadcastRepositionPopups] else [])
                   \<and> filter isDockingEffect (newEffects s s')
                       = DockingSetModes container [newMode]
                         # (if updateUi then [DockingReset container] else []))"
      using same s1 changed by blast
  }
  note shown = this
  show ?thesis
    unfolding Let_def using hidden absent shown by blast
qed

lemma demoConfig_simps [simp]:
  "useFixedToolbarContainer (demoConfig loc tmode) = False"
  "isSticky (demoConfig loc tmode) = True"
  "toolbarMode (demoConfig loc tmode) = tmode"
  "toolbarLocation (demoConfig loc tmode) = loc"
  "editorMaxWidthOpt (demoConfig loc tmode) = None"
  "targetElm (demoConfig loc tmode) = SugarElement 0"
  "outerContainer (demoConfig loc tmode) = AlloyComponent (SugarElement 5) []"
  "uiMothership (demoConfig loc tmode) = AlloyComponent (SugarElement 6) []"
  "editorBody (demoConfig loc tmode) = SugarElement 0"
  "hasOuterContainer (demoConfig loc tmode) = True"
  by (simp_all add: demoConfig_def)

lemma demoState_simps [simp]:
  "visible (demoState vis rem m) = vis"
  "removed (demoState vis rem m) = rem"
  "dockingMode (demoState vis rem m) = m"
  "floatContainer (demoState vis rem m) = Some demoContainer"
  "effects (demoState vis rem m) = []"
  by (simp_all add: demoState_def)

lemma demoPage_simps [simp]:
  "boxesBox (demoPage tx ty tb dh wb iw sl) e = \<lparr> bounds_x = tx, bounds_y = ty, bounds_bottom = tb \<rparr>"
  "heightGet (demoPage tx ty tb dh wb iw sl) e = (if e = SugarElement 4 then 30 else 40)"
  "getToolbar (demoPage tx ty tb dh wb iw sl) = Some demoToolbar"
  "docScrollHeight (demoPage tx ty tb dh wb iw sl) = dh"
  "docHeightGet (demoPage tx ty tb dh wb iw sl) = dh"
  "winBottom (demoPage tx ty tb dh wb iw sl) = wb"
  "innerWidth (demoPage tx ty tb dh wb iw sl) = iw"
  "scrollLeft (demoPage tx ty tb dh wb iw sl) = sl"
  "outerWidthGet (demoPage tx ty tb dh wb iw sl) = 400"
  by (simp_all add: demoPage_def)

lemma demoComponents_simps [simp]:
  "element demoContainer = SugarElement 1"
  "components demoContainer = []"
  "element demoToolbar = SugarElement 2"
  "components demoToolbar = [AlloyComponent (SugarElement 3) [], AlloyComponent (SugarElement 4) []]"
  by (simp_all add: demoContainer_def demoToolbar_def)

text \<open>The theorem at a hidden header, at a page whose computed mode is the stored one, and
  at a page whose computed mode (\<open>bottom\<close>) differs from the stored one (\<open>top\<close>), with and without
  \<open>updateUi\<close>.\<close>

theorem updateMode_behaviour_witness:
  "updateMode (demoConfig LocationAuto plain) (\<lambda>es. demoPage 20 10 100 2000 700 1000 0) True
      (demoState False False ModeTop) = demoState False False ModeTop
   \<and> updateMode (demoConfig LocationAuto plain) (\<lambda>es. demoPage 20 500 600 2000 700 1000 0) True
      (demoState True False ModeTop) = demoState True False ModeTop
   \<and> dockingMode (updateMode (demoConfig LocationAuto plain)
        (\<lambda>es. demoPage 20 10 100 2000 700 1000 0) True (demoState True False ModeTop)) = ModeBottom
   \<and> filter isBroadcast (newEffects (demoState True False ModeTop)
        (updateMode (demoConfig LocationAuto plain)
          (\<lambda>es. demoPage 20 10 100 2000 700 1000 0) True (demoState True False ModeTop)))
       = [BroadcastRepositionPopups]
   \<and> filter isDockingEffect (newEffects (demoState True False ModeTop)
        (updateMode (demoConfig LocationAuto plain)
          (\<lambda>es. demoPage 20 10 100 2000 700 1000 0) True (demoState True False ModeTop)))
       = [DockingSetModes demoContainer [ModeBottom], DockingReset demoContainer]
   \<and> filter isBroadcast (newEffects (demoState True False ModeTop)
        (updateMode (demoConfig LocationAuto plain)
          (\<lambda>es. demoPage 20 10 100 2000 700 1000 0) False (demoState True False ModeTop)))
       = []"
proof -
  let ?cfg = "demoConfig LocationAuto plain"
  let ?low = "\<lambda>es::Effect list. demoPage 20 10 100 2000 700 1000 0"
  let ?high = "\<lambda>es::Effect list. demoPage 20 500 600 2000 700 1000 0"
  have low: "calcMode ?cfg (?low []) demoContainer = ModeBottom"
    by (simp add: calcMode_def calcToolbarOffset_def isSplitToolbar_def Let_def)
  have high: "calcMode ?cfg (?high []) demoContainer = ModeTop"
    by (simp add: calcMode_def calcToolbarOffset_def isSplitToolbar_def Let_def)
  note hid = updateMode_behaviour [of ?cfg "demoState False False ModeTop" ?low True demoContainer]
  note same = updateMode_behaviour [of ?cfg "demoState True False ModeTop" ?high True demoContainer]
  note ui = updateMode_behaviour [of ?cfg "demoState True False ModeTop" ?low True demoContainer]
  note noui = updateMode_behaviour [of ?cfg "demoState True False ModeTop" ?low False demoContainer]
  have 1: "updateMode ?cfg ?low True (demoState False False ModeTop) = demoState False False ModeTop"
    using hid by (simp add: isVisible_def)
  have 2: "updateMode ?cfg ?high True (demoState True False ModeTop) = demoState True False ModeTop"
    using same by (simp add: isVisible_def high)
  have 3: "dockingMode (updateMode ?cfg ?low True (demoState True False ModeTop)) = ModeBottom"
    using ui by (auto simp add: isVisible_def low Let_def)
  have 4: "filter isBroadcast (newEffects (demoState True False ModeTop)
        (updateMode ?cfg ?low True (demoState True False ModeTop))) = [BroadcastRepositionPopups]"
    using ui by (auto simp add: isVisible_def low Let_def)
  have 5: "filter isDockingEffect (newEffects (demoState True False ModeTop)
        (updateMode ?cfg ?low True (demoState True False ModeTop)))
       = [DockingSetModes demoContainer [ModeBottom], DockingReset demoContainer]"
    using ui by (auto simp add: isVisible_def low Let_def)
  have 6: "filter isBroadcast (newEffects (demoState True False ModeTop)
        (updateMode ?cfg ?low False (demoState True False ModeTop))) = []"
    using noui by (auto simp add: isVisible_def low Let_def)
  from 1 2 3 4 5 6 show ?thesis by blast
qed

lemma Math_round_nearest:
  "\<bar>real_of_int (Math_round v) - v\<bar> \<le> \<bar>real_of_int n - v\<bar>"
  using round_diff_minimal [of v n] by (simp add: Math_round_def round_def abs_minus_commute)

text \<open>
  C5. With the float container in place, \<open>updateChromePosition\<close> sets on the outer
  container, in one \<open>Css.setAll\<close>: \<open>position: absolute\<close>; \<open>left\<close>, the target's \<open>x\<close> rounded;
  and \<open>top\<close>, rounded, which is \<open>max(target.y - containerHeight + offset, 0)\<close> when the
  stored mode is \<open>top\<close> and \<open>target.bottom\<close> when it is \<open>bottom\<close>. Each rounded value is an
  integer nearest to the value it rounds.
\<close>

theorem updateChromePosition_base:
  assumes "floatContainer s = Some container"
  shows "(let g = lay (effects s);
              tb = boxesBox g (targetElm cfg);
              v = (if dockingMode s = ModeTop
                   then max (bounds_y tb - heightGet g (element container)
                               + calcToolbarOffset cfg g (getToolbar g)) 0
                   else bounds_bottom tb)
          in newEffects s (updateChromePosition cfg lay optToolbarWidth s) =
               [CssSetAll (element (outerContainer cfg))
                  ((''position'', Str ''absolute'')
                   # (''left'', Px (real_of_int (Math_round (bounds_x tb))))
                   # (''top'', Px (real_of_int (Math_round v)))
                   # widthProperties cfg g optToolbarWidth)]
             \<and> (\<forall>n. \<bar>real_of_int (Math_round (bounds_x tb)) - bounds_x tb\<bar>
                      \<le> \<bar>real_of_int n - bounds_x tb\<bar>)
             \<and> (\<forall>n. \<bar>real_of_int (Math_round v) - v\<bar> \<le> \<bar>real_of_int n - v\<bar>))"
  using assms
  by (simp add: Let_def updateChromePosition_def baseProperties_def chromeTop_def
      isPositionedAtTop_def Math_round_nearest newEffects_def)

text \<open>The theorem at \<open>x = 20.5\<close> (rounded up to 21) with the toolbar at the top
  (\<open>500 - 40 + 30 = 490\<close>), at a target too close to the top (\<open>5 - 40 + 30 < 0\<close> gives 0), and
  with the toolbar at the bottom of a target ending at 600.5.\<close>

theorem updateChromePosition_base_witness:
  "newEffects (demoState True False ModeTop)
     (updateChromePosition (demoConfig LocationAuto sliding)
        (\<lambda>es. demoPage (41 / 2) 500 600 2000 700 1000 0) None (demoState True False ModeTop))
     = [CssSetAll (SugarElement 5)
          [(''position'', Str ''absolute''), (''left'', Px 21), (''top'', Px 490)]]
   \<and> newEffects (demoState True False ModeTop)
     (updateChromePosition (demoConfig LocationAuto sliding)
        (\<lambda>es. demoPage 20 5 600 2000 700 1000 0) None (demoState True False ModeTop))
     = [CssSetAll (SugarElement 5)
          [(''position'', Str ''absolute''), (''left'', Px 20), (''top'', Px 0)]]
   \<and> newEffects (demoState True False ModeBottom)
     (updateChromePosition (demoConfig LocationAuto sliding)
        (\<lambda>es. demoPage 20 5 (1201 / 2) 2000 700 1000 0) None (demoState True False ModeBottom))
     = [CssSetAll (SugarElement 5)
          [(''position'', Str ''absolute''), (''left'', Px 20), (''top'', Px 601)]]"
  using updateChromePosition_base [of "demoState True False ModeTop" demoContainer
      "\<lambda>es. demoPage (41 / 2) 500 600 2000 700 1000 0" "demoConfig LocationAuto sliding" None]
    updateChromePosition_base [of "demoState True False ModeTop" demoContainer
      "\<lambda>es. demoPage 20 5 600 2000 700 1000 0" "demoConfig LocationAuto sliding" None]
    updateChromePosition_base [of "demoState True False ModeBottom" demoContainer
      "\<lambda>es. demoPage 20 5 (1201 / 2) 2000 700 1000 0" "demoConfig LocationAuto sliding" None]
  by (simp add: Let_def calcToolbarOffset_def isSplitToolbar_def widthProperties_def
      Math_round_def)

text \<open>
  C6. The property list that \<open>updateChromePosition\<close> sets on the outer container has a
  \<open>width\<close> only when the target's \<open>x\<close> exceeds \<open>window.innerWidth\<close> (and a full width was
  measured); the width is then \<open>max(150, min(toolbarWidth, availableWidth))\<close> with
  \<open>availableWidth = innerWidth - (target.x - scroll.left)\<close>. With a full width of 400, an
  available width of 50 gives 150 and an available width of 1000 gives 400.
\<close>

theorem widthOverride:
  assumes "floatContainer s = Some container"
  shows "(let g = lay (effects s);
              tb = boxesBox g (targetElm cfg);
              availableWidth = innerWidth g - (bounds_x tb - scrollLeft g);
              ps = baseProperties cfg g container s @ widthProperties cfg g optToolbarWidth
          in newEffects s (updateChromePosition cfg lay optToolbarWidth s)
               = [CssSetAll (element (outerContainer cfg)) ps]
           \<and> map_of ps ''width''
               = (if bounds_x tb > innerWidth g
                  then map_option (\<lambda>w. Px (max 150 (min w availableWidth))) optToolbarWidth
                  else None)
           \<and> (map_of ps ''width'' \<noteq> None \<longrightarrow> bounds_x tb > innerWidth g)
           \<and> (bounds_x tb > innerWidth g \<and> optToolbarWidth = Some 400 \<and> availableWidth = 50
                \<longrightarrow> map_of ps ''width'' = Some (Px 150))
           \<and> (bounds_x tb > innerWidth g \<and> optToolbarWidth = Some 400 \<and> availableWidth = 1000
                \<longrightarrow> map_of ps ''width'' = Some (Px 400)))"
proof -
  define g where "g = lay (effects s)"
  define tb where "tb = boxesBox g (targetElm cfg)"
  define availableWidth where "availableWidth = innerWidth g - (bounds_x tb - scrollLeft g)"
  define ps where "ps = baseProperties cfg g container s @ widthProperties cfg g optToolbarWidth"
  have eff: "newEffects s (updateChromePosition cfg lay optToolbarWidth s)
               = [CssSetAll (element (outerContainer cfg)) ps]"
    using assms by (simp add: updateChromePosition_def Let_def newEffects_def ps_def g_def)
  have w: "map_of ps ''width''
               = (if bounds_x tb > innerWidth g
                  then map_option (\<lambda>w. Px (max 150 (min w availableWidth))) optToolbarWidth
                  else None)"
    by (cases optToolbarWidth)
      (simp_all add: ps_def baseProperties_def widthProperties_def Let_def tb_def
        availableWidth_def)
  have "newEffects s (updateChromePosition cfg lay optToolbarWidth s)
               = [CssSetAll (element (outerContainer cfg)) ps]
           \<and> map_of ps ''width''
               = (if bounds_x tb > innerWidth g
                  then map_option (\<lambda>w. Px (max 150 (min w availableWidth))) optToolbarWidth
                  else None)
           \<and> (map_of ps ''width'' \<noteq> None \<longrightarrow> bounds_x tb > innerWidth g)
           \<and> (bounds_x tb > innerWidth g \<and> optToolbarWidth = Some 400 \<and> availableWidth = 50
                \<longrightarrow> map_of ps ''width'' = Some (Px 150))
           \<and> (bounds_x tb > innerWidth g \<and> optToolbarWidth = Some 400 \<and> availableWidth = 1000
                \<longrightarrow> map_of ps ''width'' = Some (Px 400))"
    using eff by (simp add: w)
  then show ?thesis
    by (simp add: Let_def g_def tb_def availableWidth_def ps_def)
qed

text \<open>The theorem at a target at \<open>x = 1500\<close>: in a window 1000 wide scrolled by 550 (50
  available), in a window 1200 wide scrolled by 1300 (1000 available); and at a target
  inside the window, where no width is set.\<close>

theorem widthOverride_witness:
  "map_of (baseProperties (demoConfig LocationAuto plain) (demoPage 1500 500 600 2000 700 1000 550)
             demoContainer (demoState True False ModeTop)
           @ widthProperties (demoConfig LocationAuto plain)
               (demoPage 1500 500 600 2000 700 1000 550) (Some 400)) ''width'' = Some (Px 150)
   \<and> map_of (baseProperties (demoConfig LocationAuto plain) (demoPage 1500 500 600 2000 700 1200 1300)
             demoContainer (demoState True False ModeTop)
           @ widthProperties (demoConfig LocationAuto plain)
               (demoPage 1500 500 600 2000 700 1200 1300) (Some 400)) ''width'' = Some (Px 400)
   \<and> map_of (baseProperties (demoConfig LocationAuto plain) (demoPage 20 500 600 2000 700 1000 0)
             demoContainer (demoState True False ModeTop)
           @ widthProperties (demoConfig LocationAuto plain)
               (demoPage 20 500 600 2000 700 1000 0) (Some 400)) ''width'' = None"
proof -
  let ?cfg = "demoConfig LocationAuto plain"
  let ?s = "demoState True False ModeTop"
  have 1: "map_of (baseProperties ?cfg (demoPage 1500 500 600 2000 700 1000 550) demoContainer ?s
           @ widthProperties ?cfg (demoPage 1500 500 600 2000 700 1000 550) (Some 400)) ''width''
           = Some (Px 150)"
    using widthOverride [of ?s demoContainer "\<lambda>es. demoPage 1500 500 600 2000 700 1000 550" ?cfg
        "Some 400"]
    by (simp add: Let_def)
  have 2: "map_of (baseProperties ?cfg (demoPage 1500 500 600 2000 700 1200 1300) demoContainer ?s
           @ widthProperties ?cfg (demoPage 1500 500 600 2000 700 1200 1300) (Some 400)) ''width''
           = Some (Px 400)"
    using widthOverride [of ?s demoContainer "\<lambda>es. demoPage 1500 500 600 2000 700 1200 1300" ?cfg
        "Some 400"]
    by (simp add: Let_def)
  have 3: "map_of (baseProperties ?cfg (demoPage 20 500 600 2000 700 1000 0) demoContainer ?s
           @ widthProperties ?cfg (demoPage 20 500 600 2000 700 1000 0) (Some 400)) ''width''
           = None"
    using widthOverride [of ?s demoContainer "\<lambda>es. demoPage 20 500 600 2000 700 1000 0" ?cfg
        "Some 400"]
    by (simp add: Let_def)
  from 1 2 3 show ?thesis by blast
qed

subsection \<open>Visibility\<close>

lemma updateMode_fields:
  "visible (updateMode cfg lay u s) = visible s"
  "removed (updateMode cfg lay u s) = removed s"
  "floatContainer (updateMode cfg lay u s) = floatContainer s"
  by (simp_all add: updateMode_def Let_def setupMode_fields updateChromeUi_fields
      split: option.splits)

lemma hidden_noops:
  "\<not> isVisible s \<Longrightarrow> updateChromeUi cfg lay r s = s"
  "\<not> isVisible s \<Longrightarrow> updateMode cfg lay u s = s"
  by (simp_all add: updateChromeUi_def updateMode_def)

lemma show_header_fields:
  "visible (show_header cfg lay s) = True"
  "removed (show_header cfg lay s) = removed s"
  by (simp_all add: show_header_def Let_def updateChromeUi_fields updateMode_fields)

lemma hide_header_fields:
  "visible (hide_header cfg s) = False"
  "removed (hide_header cfg s) = removed s"
  by (simp_all add: hide_header_def Let_def)

lemma show_header_removed:
  assumes "removed s"
  shows "newEffects s (show_header cfg lay s) =
     [CssSet (element (outerContainer cfg)) ''display'' (Str ''flex''),
      AddClass (editorBody cfg) ''mce-edit-focus'',
      CssRemove (element (uiMothership cfg)) ''display'']"
proof -
  let ?s4 = "emit (CssRemove (element (uiMothership cfg)) ''display'')
     (emit (AddClass (editorBody cfg) ''mce-edit-focus'')
       (emit (CssSet (element (outerContainer cfg)) ''display'' (Str ''flex''))
          (s\<lparr>visible := True\<rparr>)))"
  have "\<not> isVisible ?s4" using assms by (simp add: isVisible_def)
  then have "show_header cfg lay s = ?s4"
    by (simp add: show_header_def Let_def hidden_noops)
  then show ?thesis by (simp add: newEffects_def)
qed

lemma hide_header_effects:
  "\<forall>e \<in> set (newEffects s (hide_header cfg s)). \<not> isPositioningEffect e"
  by (simp add: hide_header_def Let_def newEffects_def)

lemma step_fields:
  "visible (step cfg s ev) = shown (visible s) [ev]"
  "removed (step cfg s ev) = tornDown (removed s) [ev]"
  by (cases ev; simp add: show_header_fields hide_header_fields updateChromeUi_fields
      updateMode_fields repositionPopups_def)+

lemma shown_append: "shown b (evs @ [ev]) = shown (shown b evs) [ev]"
  by (induction b evs rule: shown.induct) simp_all

lemma tornDown_append: "tornDown b (evs @ [ev]) = tornDown (tornDown b evs) [ev]"
  by (induction b evs rule: tornDown.induct) simp_all

lemma run_snoc: "run cfg s (evs @ [ev]) = step cfg (run cfg s evs) ev"
  by (simp add: run_def)

lemma run_fields:
  "visible (run cfg s evs) = shown (visible s) evs
   \<and> removed (run cfg s evs) = tornDown (removed s) evs"
proof (induction evs rule: rev_induct)
  case Nil
  show ?case by (simp add: run_def)
next
  case (snoc ev evs)
  then show ?case
    by (simp only: run_snoc step_fields shown_append tornDown_append)
qed

lemma step_quiet_when_hidden:
  assumes "\<not> isVisible (step cfg s ev)"
  shows "\<forall>e \<in> set (newEffects s (step cfg s ev)). \<not> isPositioningEffect e"
proof (cases ev)
  case (EvShow lay)
  have "visible (step cfg s ev) = True"
    by (simp add: EvShow show_header_fields)
  with assms have "removed s"
    by (simp add: isVisible_def EvShow show_header_fields)
  then show ?thesis
    by (simp add: EvShow show_header_removed)
next
  case EvHide
  then show ?thesis using hide_header_effects [of s cfg] by simp
next
  case (EvUpdate lay r)
  with assms have "\<not> isVisible s"
    by (simp add: isVisible_def updateChromeUi_fields)
  then show ?thesis by (simp add: EvUpdate hidden_noops newEffects_def)
next
  case (EvUpdateMode lay u)
  with assms have "\<not> isVisible s"
    by (simp add: isVisible_def updateMode_fields)
  then show ?thesis by (simp add: EvUpdateMode hidden_noops newEffects_def)
next
  case EvRepositionPopups
  then show ?thesis by (simp add: repositionPopups_def newEffects_def)
next
  case EvEditorRemoved
  then show ?thesis by (simp add: newEffects_def)
qed

text \<open>
  C7. The visibility flag is what \<open>isVisible()\<close> reports: the cell \<open>visible\<close> and the editor
  not removed. In every state reached from a header whose cell is false, by any calls of
  \<open>show\<close>, \<open>hide\<close>, \<open>update\<close>, \<open>updateMode\<close>, \<open>repositionPopups\<close> and removals of the editor:
  the flag is false when the editor is removed; the flag is true exactly when the last of
  the \<open>show\<close>/\<open>hide\<close> calls was a \<open>show\<close> and the editor has not been removed; while the flag
  is false \<open>update\<close> and \<open>updateMode\<close> change nothing; and a step that leaves the flag false
  performs no positioning effect.
\<close>

theorem visibility_invariant:
  assumes "\<not> visible s0"
  shows "(let s = run cfg s0 evs
          in (removed s \<longrightarrow> \<not> isVisible s)
           \<and> (isVisible s \<longleftrightarrow> shown False evs \<and> \<not> tornDown (removed s0) evs)
           \<and> (\<not> isVisible s
                \<longrightarrow> updateChromeUi cfg lay resetDocking s = s
                  \<and> updateMode cfg lay updateUi s = s)
           \<and> (\<forall>ev. \<not> isVisible (step cfg s ev)
                \<longrightarrow> (\<forall>e \<in> set (newEffects s (step cfg s ev)). \<not> isPositioningEffect e)))"
  using assms run_fields [of cfg s0 evs]
  by (simp add: Let_def isVisible_def [of "run cfg s0 evs"] hidden_noops step_quiet_when_hidden)

text \<open>The theorem after \<open>show\<close>, after \<open>show\<close> and the removal of the editor, and after
  \<open>show\<close> and \<open>hide\<close>.\<close>

theorem visibility_invariant_witness:
  "isVisible (run (demoConfig LocationAuto sliding) (demoState False False ModeTop)
       [EvShow (\<lambda>es. demoPage 20 10 100 2000 700 1000 0)])
   \<and> \<not> isVisible (run (demoConfig LocationAuto sliding) (demoState False False ModeTop)
       [EvShow (\<lambda>es. demoPage 20 10 100 2000 700 1000 0), EvEditorRemoved])
   \<and> \<not> isVisible (run (demoConfig LocationAuto sliding) (demoState False False ModeTop)
       [EvShow (\<lambda>es. demoPage 20 10 100 2000 700 1000 0), EvHide])
   \<and> updateChromeUi (demoConfig LocationAuto sliding) (\<lambda>es. demoPage 20 10 100 2000 700 1000 0) True
       (run (demoConfig LocationAuto sliding) (demoState False False ModeTop)
         [EvShow (\<lambda>es. demoPage 20 10 100 2000 700 1000 0), EvEditorRemoved])
     = run (demoConfig LocationAuto sliding) (demoState False False ModeTop)
         [EvShow (\<lambda>es. demoPage 20 10 100 2000 700 1000 0), EvEditorRemoved]"
proof -
  let ?cfg = "demoConfig LocationAuto sliding"
  let ?lay = "\<lambda>es::Effect list. demoPage 20 10 100 2000 700 1000 0"
  let ?s0 = "demoState False False ModeTop"
  have 1: "isVisible (run ?cfg ?s0 [EvShow ?lay])"
    using visibility_invariant [of ?s0 ?cfg "[EvShow ?lay]" ?lay True True]
    by (simp add: Let_def)
  have 2: "\<not> isVisible (run ?cfg ?s0 [EvShow ?lay, EvEditorRemoved])"
    using visibility_invariant [of ?s0 ?cfg "[EvShow ?lay, EvEditorRemoved]" ?lay True True]
    by (simp add: Let_def)
  have 3: "\<not> isVisible (run ?cfg ?s0 [EvShow ?lay, EvHide])"
    using visibility_invariant [of ?s0 ?cfg "[EvShow ?lay, EvHide]" ?lay True True]
    by (simp add: Let_def)
  have 4: "updateChromeUi ?cfg ?lay True (run ?cfg ?s0 [EvShow ?lay, EvEditorRemoved])
     = run ?cfg ?s0 [EvShow ?lay, EvEditorRemoved]"
    using visibility_invariant [of ?s0 ?cfg "[EvShow ?lay, EvEditorRemoved]" ?lay True True]
    by (simp add: Let_def)
  from 1 2 3 4 show ?thesis by blast
qed

section \<open>Properties of the directional navigation\<close>

lemma getFocused_logs: "filter isCommit (snd (getFocused nav component info)) = []"
  by (simp add: getFocused_def split: option.splits)

lemma commitFocus_isCommit: "isCommit (commitFocus component info newFocus)"
  by (simp add: commitFocus_def split: option.splits)

lemma use_result:
  "use nav move component ev info =
     (case fst (getFocused nav component info) of
        None \<Rightarrow> (None, snd (getFocused nav component info))
      | Some focused \<Rightarrow>
          (case move (element component) focused info of
             None \<Rightarrow> (None, snd (getFocused nav component info))
           | Some newFocus \<Rightarrow>
               (Some True,
                snd (getFocused nav component info) @ [commitFocus component info newFocus])))"
  by (simp add: use_def split_def Let_def split: option.splits)

lemma use_not_consumed:
  "fst (getFocused nav component info) = None
   \<or> (\<exists>f. fst (getFocused nav component info) = Some f \<and> move (element component) f info = None)
   \<Longrightarrow> notConsumed (use nav move component ev info)"
  by (auto simp add: use_result notConsumed_def getFocused_logs split: option.splits)

lemma handlers_use:
  "west nav moveLeft moveRight component ev info =
     use nav (if getDirection nav (element component) = rtl then moveRight else moveLeft)
       component ev info"
  "east nav moveLeft moveRight component ev info =
     use nav (if getDirection nav (element component) = rtl then moveLeft else moveRight)
       component ev info"
  "north nav move component ev info = use nav move component ev info"
  "south nav move component ev info = use nav move component ev info"
  by (simp_all add: west_def east_def north_def south_def useH_def useV_def onDirection_def
      Let_def)

text \<open>
  C8. For an element read left to right the handler \<open>west(moveLeft, moveRight)\<close> is the
  handler that uses \<open>moveLeft\<close> and \<open>east(moveLeft, moveRight)\<close> the one that uses
  \<open>moveRight\<close>; for an element read right to left it is the other way round. The handlers
  \<open>north(move)\<close> and \<open>south(move)\<close> use \<open>move\<close> whatever the direction. Using a movement
  function means: when a focused element is found, the function is applied to the
  component's element, the focused element and \<open>info\<close>, and its answer decides the outcome
  and the focus committed.
\<close>

theorem directional_dispatch:
  "(getDirection nav (element component) = ltr
      \<longrightarrow> west nav moveLeft moveRight component ev info = use nav moveLeft component ev info
        \<and> east nav moveLeft moveRight component ev info = use nav moveRight component ev info)
   \<and> (getDirection nav (element component) = rtl
      \<longrightarrow> west nav moveLeft moveRight component ev info = use nav moveRight component ev info
        \<and> east nav moveLeft moveRight component ev info = use nav moveLeft component ev info)
   \<and> north nav move component ev info = use nav move component ev info
   \<and> south nav move component ev info = use nav move component ev info
   \<and> (fst (getFocused nav component info) = Some focused
      \<longrightarrow> fst (use nav move component ev info)
            = map_option (\<lambda>newFocus. True) (move (element component) focused info)
        \<and> filter isCommit (snd (use nav move component ev info))
            = (case move (element component) focused info of
                 None \<Rightarrow> []
               | Some newFocus \<Rightarrow> [commitFocus component info newFocus]))"
  by (auto simp add: handlers_use use_result getFocused_logs commitFocus_isCommit
      split: option.splits)

lemma demoNav_simps [simp]:
  "getDirection (demoDom d focused) e = d"
  "focusSearch (demoDom d focused) e = focused"
  "focusManager noManager = None"
  "focusManager (managed f) = Some \<lparr> manager_get = (\<lambda>c. f) \<rparr>"
  by (simp_all add: demoDom_def noManager_def managed_def)

text \<open>The theorem with \<open>moveLeft\<close> going to element 10 and \<open>moveRight\<close> to element 20: the
  focus committed tells which of the two was invoked.\<close>

theorem directional_dispatch_witness:
  "west (demoDom ltr (Some (SugarElement 1))) (moveTo 10) (moveTo 20) demoContainer () noManager
     = (Some True, [ConsoleLog ''getFocused'', ConsoleLog ''no focus manager'',
                    TriggerFocus (SugarElement 10) (SugarElement 1)])
   \<and> west (demoDom rtl (Some (SugarElement 1))) (moveTo 10) (moveTo 20) demoContainer () noManager
     = (Some True, [ConsoleLog ''getFocused'', ConsoleLog ''no focus manager'',
                    TriggerFocus (SugarElement 20) (SugarElement 1)])
   \<and> east (demoDom ltr (Some (SugarElement 1))) (moveTo 10) (moveTo 20) demoContainer () noManager
     = (Some True, [ConsoleLog ''getFocused'', ConsoleLog ''no focus manager'',
                    TriggerFocus (SugarElement 20) (SugarElement 1)])
   \<and> east (demoDom rtl (Some (SugarElement 1))) (moveTo 10) (moveTo 20) demoContainer () noManager
     = (Some True, [ConsoleLog ''getFocused'', ConsoleLog ''no focus manager'',
                    TriggerFocus (SugarElement 10) (SugarElement 1)])"
proof -
  let ?l = "demoDom ltr (Some (SugarElement 1))"
  let ?r = "demoDom rtl (Some (SugarElement 1))"
  have u: "\<And>nav n. focusSearch nav (SugarElement 1) = Some (SugarElement 1) \<Longrightarrow>
     use nav (moveTo n) demoContainer () noManager =
      (Some True, [ConsoleLog ''getFocused'', ConsoleLog ''no focus manager'',
                    TriggerFocus (SugarElement n) (SugarElement 1)])"
    by (simp add: use_def getFocused_def commitFocus_def moveTo_def demoContainer_def)
  note l = directional_dispatch [of ?l demoContainer "moveTo 10" "moveTo 20" "()" noManager
      "moveTo 10" "SugarElement 1"]
  note r = directional_dispatch [of ?r demoContainer "moveTo 10" "moveTo 20" "()" noManager
      "moveTo 10" "SugarElement 1"]
  have 1: "west ?l (moveTo 10) (moveTo 20) demoContainer () noManager
     = (Some True, [ConsoleLog ''getFocused'', ConsoleLog ''no focus manager'',
                    TriggerFocus (SugarElement 10) (SugarElement 1)])"
    using l by (simp add: u)
  have 2: "west ?r (moveTo 10) (moveTo 20) demoContainer () noManager
     = (Some True, [ConsoleLog ''getFocused'', ConsoleLog ''no focus manager'',
                    TriggerFocus (SugarElement 20) (SugarElement 1)])"
    using r by (simp add: u)
  have 3: "east ?l (moveTo 10) (moveTo 20) demoContainer () noManager
     = (Some True, [ConsoleLog ''getFocused'', ConsoleLog ''no focus manager'',
                    TriggerFocus (SugarElement 20) (SugarElement 1)])"
    using l by (simp add: u)
  have 4: "east ?r (moveTo 10) (moveTo 20) demoContainer () noManager
     = (Some True, [ConsoleLog ''getFocused'', ConsoleLog ''no focus manager'',
                    TriggerFocus (SugarElement 10) (SugarElement 1)])"
    using r by (simp add: u)
  from 1 2 3 4 show ?thesis by blast
qed

text \<open>
  C9. When no focused element is found (by the focus manager's \<open>get\<close> when a manager is
  configured, by \<open>Focus.search\<close> otherwise), each of the handlers built by \<open>west\<close>, \<open>east\<close>,
  \<open>north\<close> and \<open>south\<close> answers with no outcome and commits no focus: neither
  \<open>manager.set\<close> nor \<open>triggerFocus\<close> is among its effects. The same holds when a focused
  element is found and the movement function the handler uses answers with no new focus.
\<close>

theorem no_focus_no_commit:
  "(fst (getFocused nav component info) = None
      \<longrightarrow> notConsumed (west nav moveLeft moveRight component ev info)
        \<and> notConsumed (east nav moveLeft moveRight component ev info)
        \<and> notConsumed (north nav move component ev info)
        \<and> notConsumed (south nav move component ev info))
   \<and> (fst (getFocused nav component info) = Some focused
      \<longrightarrow> ((if getDirection nav (element component) = rtl then moveRight else moveLeft)
              (element component) focused info = None
            \<longrightarrow> notConsumed (west nav moveLeft moveRight component ev info))
        \<and> ((if getDirection nav (element component) = rtl then moveLeft else moveRight)
              (element component) focused info = None
            \<longrightarrow> notConsumed (east nav moveLeft moveRight component ev info))
        \<and> (move (element component) focused info = None
            \<longrightarrow> notConsumed (north nav move component ev info)
              \<and> notConsumed (south nav move component ev info)))
   \<and> fst (getFocused nav component info)
       = (case focusManager info of
            None \<Rightarrow> focusSearch nav (element component)
          | Some manager \<Rightarrow> manager_get manager component)"
proof -
  have a: "fst (getFocused nav component info)
       = (case focusManager info of
            None \<Rightarrow> focusSearch nav (element component)
          | Some manager \<Rightarrow> manager_get manager component)"
    by (simp add: getFocused_def split: option.splits)
  have b: "fst (getFocused nav component info) = None
      \<Longrightarrow> notConsumed (use nav m component ev info)" for m
    by (rule use_not_consumed) simp
  have c: "fst (getFocused nav component info) = Some focused
      \<Longrightarrow> m (element component) focused info = None
      \<Longrightarrow> notConsumed (use nav m component ev info)" for m
    by (rule use_not_consumed) simp
  show ?thesis
    using a b c by (simp add: handlers_use)
qed

text \<open>The theorem with nothing focused (with and without a focus manager) and with a
  movement function that declines; where the function used does move, the event is
  consumed.\<close>

theorem no_focus_no_commit_witness:
  "notConsumed (west (demoDom ltr None) (moveTo 10) (moveTo 20) demoContainer () noManager)
   \<and> notConsumed (south (demoDom ltr (Some (SugarElement 1))) (moveTo 10) demoContainer ()
        (managed None))
   \<and> notConsumed (east (demoDom rtl (Some (SugarElement 1))) moveNowhere (moveTo 20)
        demoContainer () noManager)
   \<and> notConsumed (north (demoDom ltr (Some (SugarElement 1))) moveNowhere demoContainer ()
        noManager)
   \<and> \<not> notConsumed (east (demoDom ltr (Some (SugarElement 1))) moveNowhere (moveTo 20)
        demoContainer () noManager)"
proof -
  have 1: "notConsumed (west (demoDom ltr None) (moveTo 10) (moveTo 20) demoContainer () noManager)"
    using no_focus_no_commit [of "demoDom ltr None" demoContainer noManager "moveTo 10"
        "moveTo 20" "()" "moveTo 10" "SugarElement 1"]
    by simp
  have 2: "notConsumed (south (demoDom ltr (Some (SugarElement 1))) (moveTo 10) demoContainer ()
        (managed None))"
    using no_focus_no_commit [of "demoDom ltr (Some (SugarElement 1))" demoContainer
        "managed None" "moveTo 10" "moveTo 20" "()" "moveTo 10" "SugarElement 1"]
    by simp
  have 3: "notConsumed (east (demoDom rtl (Some (SugarElement 1))) moveNowhere (moveTo 20)
        demoContainer () noManager)"
    using no_focus_no_commit [of "demoDom rtl (Some (SugarElement 1))" demoContainer
        noManager moveNowhere "moveTo 20" "()" moveNowhere "SugarElement 1"]
    by (simp add: moveNowhere_def)
  have 4: "notConsumed (north (demoDom ltr (Some (SugarElement 1))) moveNowhere demoContainer ()
        noManager)"
    using no_focus_no_commit [of "demoDom ltr (Some (SugarElement 1))" demoContainer
        noManager moveNowhere "moveTo 20" "()" moveNowhere "SugarElement 1"]
    by (simp add: moveNowhere_def)
  have 5: "\<not> notConsumed (east (demoDom ltr (Some (SugarElement 1))) moveNowhere (moveTo 20)
        demoContainer () noManager)"
    by (simp add: handlers_use use_result getFocused_def notConsumed_def moveTo_def)
  from 1 2 3 4 5 show ?thesis by blast
qed

section \<open>Properties of the selector notification\<close>

subsection \<open>Records and the two loops\<close>

lemma invokeAll_fields [simp]:
  "isSetup (invokeAll cbs act n sel ps s) = isSetup s"
  "arrays (invokeAll cbs act n sel ps s) = arrays s"
  "nextArray (invokeAll cbs act n sel ps s) = nextArray s"
  "selectorChangedData (invokeAll cbs act n sel ps s) = selectorChangedData s"
  "currentSelectors (invokeAll cbs act n sel ps s) = currentSelectors s"
  "invocations (invokeAll cbs act n sel ps s)
     = invocations s @ map (\<lambda>cb. Invocation cb act n sel ps) cbs"
  by (simp_all add: invokeAll_def)

lemma hasKey_update [simp]: "hasKey (AList.update k v m) k' = (k' = k \<or> hasKey m k')"
  by (simp add: hasKey_def update_conv')

lemma hasKey_delete [simp]: "hasKey (AList.delete k m) k' = (k' \<noteq> k \<and> hasKey m k')"
  by (simp add: hasKey_def delete_conv')

lemma hasKey_Nil [simp]: "hasKey [] k = False"
  by (simp add: hasKey_def)

lemma hasKey_Cons [simp]: "hasKey ((k, v) # m) k' = (k' = k \<or> hasKey m k')"
  by (auto simp add: hasKey_def)

lemma map_of_None_hasKey: "(map_of m k = None) = (\<not> hasKey m k)"
  by (simp add: hasKey_def)

lemma hasKey_iff: "hasKey m k = (k \<in> fst ` set m)"
  by (simp add: hasKey_def map_of_eq_None_iff)

text \<open>The order in which a record is walked.\<close>

lemma set_objEntries [simp]: "set (objEntries m) = set m"
  by (auto simp add: objEntries_def)

lemma hasKey_objEntries [simp]: "hasKey (objEntries m) k = hasKey m k"
  by (simp add: hasKey_iff)

















subsection \<open>The handler\<close>















subsection \<open>Reachable states\<close>



lemma map_of_distinct_mem:
  "distinct (map fst m) \<Longrightarrow> (k, a) \<in> set m \<Longrightarrow> map_of m k = Some a"
  by simp























subsection \<open>Callbacks fire on transitions\<close>

subsection \<open>Invocations per selector\<close>









subsection \<open>Registration and unbinding\<close>











subsection \<open>Callbacks follow the tracked state\<close>




end
